theory Spec2Isabelle
  imports Complex_Main "HOL-Library.Multiset" "HOL-Library.Product_Lexorder"
begin

section \<open>The retrieval core of the creator coach: \<open>knowledge_base/rag_system.py\<close>\<close>

text \<open>
  A shallow embedding of the class \<open>RAGKnowledgeBase\<close>. Texts are lists of code points
  below 256 (HOL's \<open>string\<close>); Python's floats are modelled by the reals, so rounding is
  not part of the model. The tokenizer, the two embedding models and the vector index
  library are not code of the repository: the tokenizer and the embedding models are
  parameters (record \<open>services\<close>), the flat inner-product index is modelled after the
  library's documented contract.
\<close>

subsection \<open>Errors\<close>

datatype error = IndexError | ValueError | AssertionError | OSError | RuntimeError

subsection \<open>Python string operations used by the chunker and the scorer\<close>

text \<open>\<open>str.isspace\<close> on one code point below 256.\<close>

definition is_space :: "char \<Rightarrow> bool" where
  "is_space c =
     ((of_char c :: nat) \<in> set [9, 10, 11, 12, 13, 28, 29, 30, 31, 32, 133, 160])"

text \<open>\<open>str.strip()\<close>: leading and trailing whitespace removed.\<close>

definition strip :: "string \<Rightarrow> string" where
  "strip s = rev (dropWhile is_space (rev (dropWhile is_space s)))"

text \<open>\<open>str.split()\<close> with no argument: the maximal runs of non-whitespace characters.
  The first argument is the word being read.\<close>

fun split_from :: "string \<Rightarrow> string \<Rightarrow> string list" where
  "split_from w [] = (if w = [] then [] else [w])"
| "split_from w (c # cs) =
     (if is_space c then (if w = [] then split_from [] cs else w # split_from [] cs)
      else split_from (w @ [c]) cs)"

definition split :: "string \<Rightarrow> string list" where
  "split s = split_from [] s"

text \<open>\<open>str.lower()\<close> on code points below 256: the ASCII capitals and the Latin-1
  capitals (\<open>0xC0\<close> to \<open>0xDE\<close>, the multiplication sign apart) move up by 32.\<close>

definition lower_char :: "char \<Rightarrow> char" where
  "lower_char c =
     (let n = (of_char c :: nat)
      in if (65 \<le> n \<and> n \<le> 90) \<or> (192 \<le> n \<and> n \<le> 222 \<and> n \<noteq> 215)
         then char_of (n + 32) else c)"

definition lower :: "string \<Rightarrow> string" where
  "lower s = map lower_char s"

text \<open>\<open>pat in s\<close> on strings: \<open>pat\<close> occurs as a contiguous piece of \<open>s\<close>.\<close>

fun starts_with :: "string \<Rightarrow> string \<Rightarrow> bool" where
  "starts_with [] s = True"
| "starts_with (p # ps) [] = False"
| "starts_with (p # ps) (c # cs) = (p = c \<and> starts_with ps cs)"

fun str_contains :: "string \<Rightarrow> string \<Rightarrow> bool" where
  "str_contains pat [] = (pat = [])"
| "str_contains pat (c # cs) = (starts_with pat (c # cs) \<or> str_contains pat cs)"

text \<open>Truthiness of \<open>post.get(key)\<close> on a text field: present and not empty.\<close>

fun truthy :: "string option \<Rightarrow> bool" where
  "truthy None = False"
| "truthy (Some s) = (s \<noteq> [])"

subsection \<open>Posts and chunks\<close>

text \<open>A post dictionary; \<open>None\<close> is an absent key, and a key that is present holds a value
  of its type (a text, a count, a rate).\<close>

record post =
  post_id :: "string option"
  post_type :: "string option"
  post_date :: "string option"
  caption_text :: "string option"
  transcript :: "string option"
  media_url :: "string option"
  likes :: "int option"
  comments :: "int option"
  engagement_rate :: "real option"
  hashtags :: "string list option"

text \<open>\<open>post.get(key, 0)\<close>.\<close>

definition get_or :: "'a \<Rightarrow> 'a option \<Rightarrow> 'a" where
  "get_or dflt v = (case v of None \<Rightarrow> dflt | Some x \<Rightarrow> x)"

record post_meta =
  pm_post_id :: "string option"
  pm_post_type :: "string option"
  pm_post_date :: "string option"
  pm_likes :: int
  pm_comments :: int
  pm_hashtags :: "string list"
  pm_media_url :: "string option"

record engagement =
  em_likes :: int
  em_comments :: int
  em_engagement_rate :: real

text \<open>A chunk dictionary; the keys that only some chunk types carry are options.\<close>

record chunk =
  chunk_text :: string
  chunk_type :: string
  topic_tags :: "string list"
  post_metadata :: post_meta
  chunk_index :: "nat option"
  engagement_metrics :: "engagement option"
  content_quality :: "real option"

definition extract_post_metadata :: "post \<Rightarrow> post_meta" where
  "extract_post_metadata p =
     \<lparr>pm_post_id = post_id p,
      pm_post_type = post_type p,
      pm_post_date = post_date p,
      pm_likes = get_or 0 (likes p),
      pm_comments = get_or 0 (comments p),
      pm_hashtags = get_or [] (hashtags p),
      pm_media_url = media_url p\<rparr>"

subsection \<open>The tokenizer and the embedding models\<close>

text \<open>
  \<open>encode\<close> and \<open>decode\<close> are the tokenizer's. \<open>openai_embed\<close> is the remote embedding
  call on a batch of texts, \<open>None\<close> when it raises; \<open>sentence_encode\<close> is the local
  fallback model.
\<close>

record services =
  encode :: "string \<Rightarrow> nat list"
  decode :: "nat list \<Rightarrow> string"
  openai_embed :: "string list \<Rightarrow> real list list option"
  sentence_encode :: "string list \<Rightarrow> real list list"

subsection \<open>\<open>_chunk_by_tokens\<close>\<close>

text \<open>The loop \<open>for i in range(0, len(tokens), max_tokens)\<close> from position \<open>i\<close> on, for a
  positive step \<open>n\<close>; the slice \<open>tokens[i:i + n]\<close> is \<open>take n (drop i tokens)\<close>.\<close>

function chunk_loop :: "(nat list \<Rightarrow> string) \<Rightarrow> nat list \<Rightarrow> nat \<Rightarrow> nat \<Rightarrow> string list" where
  "chunk_loop dec tokens n i =
     (if 0 < n \<and> i < length tokens
      then dec (take n (drop i tokens)) # chunk_loop dec tokens n (i + n)
      else [])"
  by pat_completeness auto
termination
  by (relation "measure (\<lambda>(dec, tokens, n, i). length tokens - i)") auto

declare chunk_loop.simps [simp del]

text \<open>\<open>range\<close> raises \<open>ValueError\<close> on a zero step and is empty on a negative one
  (the start is 0 and the stop is not negative).\<close>

definition chunk_by_tokens :: "services \<Rightarrow> string \<Rightarrow> int \<Rightarrow> error + string list" where
  "chunk_by_tokens sv text max_tokens =
     (let tokens = encode sv text
      in if max_tokens = 0 then Inl ValueError
         else if max_tokens < 0 then Inr []
         else Inr (chunk_loop (decode sv) tokens (nat max_tokens) 0))"

subsection \<open>\<open>_assess_content_quality\<close>\<close>

definition advice_markers :: "string list" where
  "advice_markers = [''how to'', ''tip'', ''strategy'', ''step'']"

definition assess_content_quality :: "string \<Rightarrow> post \<Rightarrow> real" where
  "assess_content_quality text p =
     (let q0 = (0::real);
          text_length = length (split text);
          q1 = (if 15 \<le> text_length \<and> text_length \<le> 150 then q0 + 0.3 else q0);
          lk = get_or 0 (likes p);
          q2 = (if lk > 1000 then q1 + 0.4 else if lk > 500 then q1 + 0.2 else q1);
          q3 = (if CHR ''?'' \<in> set text then q2 + 0.1 else q2);
          q4 = (if list_ex (\<lambda>word. str_contains word (lower text)) advice_markers
                then q3 + 0.2 else q3)
      in min q4 1.0)"

subsection \<open>\<open>_chunk_semantically\<close>\<close>

text \<open>The loop over \<open>enumerate(chunk_texts)\<close>: fragments whose stripped text has fewer than
  20 characters are skipped.\<close>

fun semantic_loop :: "post \<Rightarrow> string \<Rightarrow> (nat \<times> string) list \<Rightarrow> chunk list" where
  "semantic_loop p content_type [] = []"
| "semantic_loop p content_type ((i, chunk_txt) # rest) =
     (if length (strip chunk_txt) < 20 then semantic_loop p content_type rest
      else \<lparr>chunk_text = strip chunk_txt,
            chunk_type = ''semantic_'' @ content_type,
            topic_tags = [content_type],
            post_metadata = extract_post_metadata p,
            chunk_index = Some i,
            engagement_metrics = None,
            content_quality = Some (assess_content_quality chunk_txt p)\<rparr>
           # semantic_loop p content_type rest)"

definition chunk_semantically :: "services \<Rightarrow> string \<Rightarrow> post \<Rightarrow> string \<Rightarrow> error + chunk list" where
  "chunk_semantically sv content p content_type =
     (let chunk_size = (if content_type = ''transcript'' then 200 else 100)
      in case chunk_by_tokens sv content chunk_size of
           Inl e \<Rightarrow> Inl e
         | Inr chunk_texts \<Rightarrow> Inr (semantic_loop p content_type (enumerate 0 chunk_texts)))"

subsection \<open>\<open>_create_high_value_chunk\<close>\<close>

text \<open>\<open>post.get('transcript') or post.get('caption_text')\<close>.\<close>

definition transcript_or_caption :: "post \<Rightarrow> string option" where
  "transcript_or_caption p = (if truthy (transcript p) then transcript p else caption_text p)"

definition create_high_value_chunk :: "post \<Rightarrow> chunk option" where
  "create_high_value_chunk p =
     (if \<not> truthy (caption_text p) \<and> \<not> truthy (transcript p) then None
      else Some \<lparr>chunk_text = the (transcript_or_caption p),
                 chunk_type = ''high_value'',
                 topic_tags = [''viral'', ''high_engagement''],
                 post_metadata = extract_post_metadata p,
                 chunk_index = None,
                 engagement_metrics =
                   Some \<lparr>em_likes = get_or 0 (likes p),
                         em_comments = get_or 0 (comments p),
                         em_engagement_rate = get_or 0 (engagement_rate p)\<rparr>,
                 content_quality = Some 1.0\<rparr>)"

subsection \<open>\<open>_chunk_content_strategically\<close>\<close>

text \<open>The body of the loop over the posts: the chunks of one post.\<close>

definition chunks_of_post :: "services \<Rightarrow> post \<Rightarrow> error + chunk list" where
  "chunks_of_post sv p =
     (case (if truthy (caption_text p)
            then chunk_semantically sv (the (caption_text p)) p ''caption''
            else Inr []) of
        Inl e \<Rightarrow> Inl e
      | Inr caption_chunks \<Rightarrow>
     (case (if truthy (transcript p)
            then chunk_semantically sv (the (transcript p)) p ''transcript''
            else Inr []) of
        Inl e \<Rightarrow> Inl e
      | Inr transcript_chunks \<Rightarrow>
          Inr (caption_chunks @ transcript_chunks @
               (if get_or 0 (likes p) > 1000 \<or> get_or 0 (engagement_rate p) > 500
                then (case create_high_value_chunk p of None \<Rightarrow> [] | Some c \<Rightarrow> [c])
                else []))))"

fun chunk_content_strategically :: "services \<Rightarrow> post list \<Rightarrow> 'p \<Rightarrow> error + chunk list" where
  "chunk_content_strategically sv [] profile = Inr []"
| "chunk_content_strategically sv (p # posts) profile =
     (case chunks_of_post sv p of
        Inl e \<Rightarrow> Inl e
      | Inr post_chunks \<Rightarrow>
          (case chunk_content_strategically sv posts profile of
             Inl e \<Rightarrow> Inl e
           | Inr chunks \<Rightarrow> Inr (post_chunks @ chunks)))"

subsection \<open>numpy arrays\<close>

text \<open>\<open>np.array(embeddings, dtype='float32')\<close> on a list of rows: the empty list gives a
  one-dimensional array of shape \<open>(0,)\<close>, rows of one length give shape \<open>(n, d)\<close>, rows of
  different lengths raise \<open>ValueError\<close>.\<close>

record ndarray =
  shape :: "nat list"
  rows :: "real list list"

definition np_array :: "real list list \<Rightarrow> error + ndarray" where
  "np_array xs =
     (case xs of
        [] \<Rightarrow> Inr \<lparr>shape = [0], rows = []\<rparr>
      | r # rs \<Rightarrow>
          if list_all (\<lambda>r'. length r' = length r) rs
          then Inr \<lparr>shape = [length xs, length r], rows = xs\<rparr>
          else Inl ValueError)"

text \<open>\<open>a.shape[i]\<close>: a tuple index out of range raises \<open>IndexError\<close>.\<close>

definition shape_at :: "ndarray \<Rightarrow> nat \<Rightarrow> error + nat" where
  "shape_at a i = (if i < length (shape a) then Inr (shape a ! i) else Inl IndexError)"

subsection \<open>The flat inner-product index\<close>

text \<open>
  The index library's \<open>IndexFlatIP\<close>: a dimension and the stored vectors, \<open>ntotal\<close> being
  their number. \<open>add\<close> and \<open>search\<close> assert that the dimension of their argument is the
  index's, and \<open>search\<close> that \<open>k\<close> is positive. \<open>search\<close> returns exactly \<open>k\<close> pairs of a
  score and a label: the stored vectors with the largest inner products, in descending
  order, and, when fewer than \<open>k\<close> vectors are stored, the remaining places filled with the
  label \<open>-1\<close> and the lowest single-precision score.

  The library collects the result in a heap of \<open>k\<close> pairs that starts filled with that
  lowest score and the label \<open>-1\<close>. The stored vectors are visited in stored order; a
  vector replaces the least pair of the heap when its score is strictly larger than that
  pair's. The result is the heap in descending order of score and, among equal scores,
  of label. The heap is modelled by the list of its pairs in ascending order (pairs are
  compared by score, then by label).
\<close>

record faiss_index =
  index_d :: nat
  xb :: "real list list"

definition IndexFlatIP :: "nat \<Rightarrow> faiss_index" where
  "IndexFlatIP dm = \<lparr>index_d = dm, xb = []\<rparr>"

definition ntotal :: "faiss_index \<Rightarrow> nat" where
  "ntotal ix = length (xb ix)"

definition FLT_MAX :: real where
  "FLT_MAX = 340282346638528859811704183484516925440"

definition inner_product :: "real list \<Rightarrow> real list \<Rightarrow> real" where
  "inner_product a b = sum_list (map2 (*) a b)"

text \<open>\<open>normalize_L2\<close> scales every row of positive norm to norm 1 and leaves a zero row.\<close>

definition normalize_row :: "real list \<Rightarrow> real list" where
  "normalize_row v =
     (let nr = sum_list (map (\<lambda>x. x * x) v)
      in if nr > 0 then map (\<lambda>x. x * (1 / sqrt nr)) v else v)"

definition normalize_L2 :: "ndarray \<Rightarrow> ndarray" where
  "normalize_L2 a = a\<lparr>rows := map normalize_row (rows a)\<rparr>"

definition index_add :: "faiss_index \<Rightarrow> ndarray \<Rightarrow> error + faiss_index" where
  "index_add ix a =
     (if length (shape a) \<noteq> 2 then Inl ValueError
      else if shape a ! 1 \<noteq> index_d ix then Inl AssertionError
      else Inr (ix\<lparr>xb := xb ix @ rows a\<rparr>))"

definition add_result :: "(real \<times> int) list \<Rightarrow> real \<times> int \<Rightarrow> (real \<times> int) list" where
  "add_result heap hit =
     (if heap \<noteq> [] \<and> fst (hd heap) < fst hit then insort hit (tl heap) else heap)"

definition index_search :: "faiss_index \<Rightarrow> real list \<Rightarrow> int \<Rightarrow> error + (real \<times> int) list" where
  "index_search ix q k =
     (if length q \<noteq> index_d ix then Inl AssertionError
      else if k \<le> 0 then Inl AssertionError
      else
        let scored = zip (map (inner_product q) (xb ix)) (map int [0..<length (xb ix)]);
            heap = foldl add_result (replicate (nat k) (- FLT_MAX, - 1)) scored
        in Inr (rev heap))"

subsection \<open>The state of a \<open>RAGKnowledgeBase\<close> object\<close>

record rag_state =
  index :: "faiss_index option"
  chunk_metadata :: "chunk list"
  embedding_dimension :: nat

text \<open>\<open>__init__\<close>.\<close>

definition init_state :: rag_state where
  "init_state = \<lparr>index = None, chunk_metadata = [], embedding_dimension = 1536\<rparr>"

subsection \<open>\<open>_generate_embeddings\<close>\<close>

text \<open>The loop over the batches of 100 texts from position \<open>i\<close> on; a batch whose remote
  call raises is embedded by the local model.\<close>

function embed_loop :: "services \<Rightarrow> string list \<Rightarrow> nat \<Rightarrow> real list list" where
  "embed_loop sv texts i =
     (if i < length texts
      then (let batch = take 100 (drop i texts);
                batch_embeddings =
                  (case openai_embed sv batch of
                     Some es \<Rightarrow> es
                   | None \<Rightarrow> sentence_encode sv batch)
            in batch_embeddings @ embed_loop sv texts (i + 100))
      else [])"
  by pat_completeness auto
termination
  by (relation "measure (\<lambda>(sv, texts, i). length texts - i)") auto

declare embed_loop.simps [simp del]

definition generate_embeddings :: "services \<Rightarrow> chunk list \<Rightarrow> error + ndarray" where
  "generate_embeddings sv chunks = np_array (embed_loop sv (map chunk_text chunks) 0)"

subsection \<open>\<open>_build_faiss_index\<close>\<close>

definition build_faiss_index :: "ndarray \<Rightarrow> chunk list \<Rightarrow> rag_state \<Rightarrow> error + rag_state" where
  "build_faiss_index embeddings chunks st =
     (case shape_at embeddings 1 of
        Inl e \<Rightarrow> Inl e
      | Inr dm \<Rightarrow>
          (case index_add (IndexFlatIP dm) (normalize_L2 embeddings) of
             Inl e \<Rightarrow> Inl e
           | Inr ix \<Rightarrow> Inr (st\<lparr>index := Some ix, chunk_metadata := chunks\<rparr>)))"

subsection \<open>\<open>_save_knowledge_base\<close> and \<open>load_knowledge_base\<close>\<close>

text \<open>
  The directory \<open>knowledge_base/creator_<id>\<close> holds two files, the serialized index and
  the chunk metadata; a file that is absent or cannot be parsed is \<open>None\<close>. The index
  file holds what the object's index field held: an index, or the null index that the
  library writes for an object without index and reads back as none. The disk maps a
  creator id to its directory.
\<close>

record kb_dir =
  faiss_index_bin :: "faiss_index option option"
  chunk_metadata_json :: "chunk list option"

type_synonym disk = "int \<Rightarrow> kb_dir"

text \<open>
  Where the input/output of one save raises, if anywhere: creating the directory
  (\<open>os.makedirs\<close>), opening the index file (nothing written), writing the index (the
  file is left truncated), opening the metadata file (the index is written, the metadata
  file untouched), dumping the metadata (the file is left truncated).
\<close>

datatype io_fault =
  NoFault | MakedirsFails | OpenIndexFails | WriteIndexFails | OpenMetadataFails | DumpMetadataFails

definition write_index_file :: "faiss_index option option \<Rightarrow> int \<Rightarrow> disk \<Rightarrow> disk" where
  "write_index_file content creator_id dk =
     dk(creator_id := (dk creator_id)\<lparr>faiss_index_bin := content\<rparr>)"

definition write_metadata_file :: "chunk list option \<Rightarrow> int \<Rightarrow> disk \<Rightarrow> disk" where
  "write_metadata_file content creator_id dk =
     dk(creator_id := (dk creator_id)\<lparr>chunk_metadata_json := content\<rparr>)"

text \<open>The result is the exception raised, if any, and the disk as the call leaves it.\<close>

definition save_knowledge_base :: "io_fault \<Rightarrow> rag_state \<Rightarrow> int \<Rightarrow> disk \<Rightarrow> error option \<times> disk" where
  "save_knowledge_base fault st creator_id dk =
     (if fault = MakedirsFails then (Some OSError, dk)
      else if fault = OpenIndexFails then (Some RuntimeError, dk)
      else if fault = WriteIndexFails
      then (Some RuntimeError, write_index_file None creator_id dk)
      else
        let dk1 = write_index_file (Some (index st)) creator_id dk
        in if fault = OpenMetadataFails then (Some OSError, dk1)
           else if fault = DumpMetadataFails
           then (Some OSError, write_metadata_file None creator_id dk1)
           else (None, write_metadata_file (Some (chunk_metadata st)) creator_id dk1))"

text \<open>The result is the returned flag and the object's state after the call: the index
  is assigned as soon as it is read, before the metadata file is opened.\<close>

definition load_knowledge_base :: "rag_state \<Rightarrow> int \<Rightarrow> disk \<Rightarrow> bool \<times> rag_state" where
  "load_knowledge_base st creator_id dk =
     (case faiss_index_bin (dk creator_id) of
        None \<Rightarrow> (False, st)
      | Some read_index \<Rightarrow>
          (case chunk_metadata_json (dk creator_id) of
             None \<Rightarrow> (False, st\<lparr>index := read_index\<rparr>)
           | Some m \<Rightarrow> (True, st\<lparr>index := read_index, chunk_metadata := m\<rparr>)))"

subsection \<open>\<open>create_knowledge_base\<close>\<close>

record build_summary =
  bs_creator_id :: int
  total_chunks :: nat
  chunk_types :: "string set"
  bs_embedding_dimension :: nat

text \<open>
  The steps of the build in the source's order. The database step is left out: it
  catches every exception it meets and touches neither the object's state nor the files.
  An exception ends the build; the result is then the exception alone.
\<close>

definition create_knowledge_base ::
  "services \<Rightarrow> io_fault \<Rightarrow> rag_state \<Rightarrow> disk \<Rightarrow> int \<Rightarrow> post list \<Rightarrow> 'p
     \<Rightarrow> error + (build_summary \<times> rag_state \<times> disk)" where
  "create_knowledge_base sv fault st dk creator_id posts coach_profile =
     (case chunk_content_strategically sv posts coach_profile of
        Inl e \<Rightarrow> Inl e
      | Inr all_chunks \<Rightarrow>
     (case generate_embeddings sv all_chunks of
        Inl e \<Rightarrow> Inl e
      | Inr embeddings \<Rightarrow>
     (case build_faiss_index embeddings all_chunks st of
        Inl e \<Rightarrow> Inl e
      | Inr st1 \<Rightarrow>
     (case save_knowledge_base fault st1 creator_id dk of
        (Some e, dk1) \<Rightarrow> Inl e
      | (None, dk1) \<Rightarrow>
          Inr (\<lparr>bs_creator_id = creator_id,
                total_chunks = length all_chunks,
                chunk_types = set (map chunk_type all_chunks),
                bs_embedding_dimension = embedding_dimension st1\<rparr>,
               st1, dk1)))))"

subsection \<open>\<open>search_knowledge\<close>\<close>

text \<open>A search result: a copy of the chunk with the two scores added.\<close>

record search_result = chunk +
  similarity_score :: real
  final_score :: real

text \<open>\<open>xs[i]\<close> on a list: a negative index counts from the end.\<close>

definition list_getitem :: "'a list \<Rightarrow> int \<Rightarrow> error + 'a" where
  "list_getitem xs i =
     (if 0 \<le> i \<and> i < int (length xs) then Inr (xs ! nat i)
      else if i < 0 \<and> - int (length xs) \<le> i then Inr (xs ! nat (int (length xs) + i))
      else Inl IndexError)"

definition make_result :: "chunk \<Rightarrow> real \<Rightarrow> search_result" where
  "make_result c score =
     \<lparr>chunk_text = chunk_text c,
      chunk_type = chunk_type c,
      topic_tags = topic_tags c,
      post_metadata = post_metadata c,
      chunk_index = chunk_index c,
      engagement_metrics = engagement_metrics c,
      content_quality = content_quality c,
      similarity_score = score,
      final_score = score + get_or 0.5 (content_quality c) * 0.1\<rparr>"

text \<open>The loop over \<open>zip(scores[0], indices[0])\<close>.\<close>

fun collect_results :: "chunk list \<Rightarrow> (real \<times> int) list \<Rightarrow> error + search_result list" where
  "collect_results metadata [] = Inr []"
| "collect_results metadata ((score, idx) # hits) =
     (if idx < int (length metadata)
      then (case list_getitem metadata idx of
              Inl e \<Rightarrow> Inl e
            | Inr c \<Rightarrow>
                (case collect_results metadata hits of
                   Inl e \<Rightarrow> Inl e
                 | Inr results \<Rightarrow> Inr (make_result c score # results)))
      else collect_results metadata hits)"

text \<open>The query embedding: the remote model, and on any exception (an empty response
  included) the local one.\<close>

definition embed_query :: "services \<Rightarrow> string \<Rightarrow> error + real list" where
  "embed_query sv query =
     (case openai_embed sv [query] of
        Some (e # es) \<Rightarrow> Inr e
      | _ \<Rightarrow> (case sentence_encode sv [query] of
                [] \<Rightarrow> Inl IndexError
              | e # es \<Rightarrow> Inr e))"

text \<open>Everything up to the final sort: the candidates in the order of the index search.\<close>

definition search_candidates ::
  "services \<Rightarrow> faiss_index \<Rightarrow> chunk list \<Rightarrow> string \<Rightarrow> int \<Rightarrow> error + search_result list" where
  "search_candidates sv ix metadata query k =
     (case embed_query sv query of
        Inl e \<Rightarrow> Inl e
      | Inr query_embedding \<Rightarrow>
          (case index_search ix (normalize_row query_embedding) k of
             Inl e \<Rightarrow> Inl e
           | Inr hits \<Rightarrow> collect_results metadata hits))"

text \<open>The test \<open>not self.index\<close> holds when no index object is loaded; an index object is
  true whatever it holds. \<open>results.sort(key=..., reverse=True)\<close> is a stable sort in
  descending order of the key: the stable ascending sort on the negated key.\<close>

definition search_knowledge :: "services \<Rightarrow> rag_state \<Rightarrow> string \<Rightarrow> int \<Rightarrow> error + search_result list" where
  "search_knowledge sv st query k =
     (case index st of
        None \<Rightarrow> Inr []
      | Some ix \<Rightarrow>
          (case search_candidates sv ix (chunk_metadata st) query k of
             Inl e \<Rightarrow> Inl e
           | Inr results \<Rightarrow> Inr (sort_key (\<lambda>r. - final_score r) results)))"

subsection \<open>A concrete environment for worked examples\<close>

text \<open>A tokenizer with one token per character, a remote embedding service that is
  unreachable, and a local model that maps every text to the first unit vector of
  dimension 384.\<close>

definition unit_vector :: "nat \<Rightarrow> real list" where
  "unit_vector n = 1 # replicate (n - 1) 0"

definition offline_services :: services where
  "offline_services =
     \<lparr>encode = map of_char,
      decode = map char_of,
      openai_embed = (\<lambda>batch. None),
      sentence_encode = (\<lambda>batch. map (\<lambda>t. unit_vector 384) batch)\<rparr>"

definition quiet_post :: post where
  "quiet_post =
     \<lparr>post_id = None, post_type = None, post_date = None, caption_text = None,
      transcript = None, media_url = None, likes = Some 0, comments = Some 0,
      engagement_rate = Some 0, hashtags = None\<rparr>"

subsection \<open>Derived notions for the chunk builder\<close>

text \<open>The semantic chunks of one post (caption first, then transcript), the list holding
  its high-value chunk when it has one, and that chunk.\<close>

definition sem_part :: "services \<Rightarrow> post \<Rightarrow> chunk list" where
  "sem_part sv p =
     (if truthy (caption_text p)
      then semantic_loop p ''caption'' (enumerate 0
             (chunk_loop (decode sv) (encode sv (the (caption_text p))) 100 0))
      else []) @
     (if truthy (transcript p)
      then semantic_loop p ''transcript'' (enumerate 0
             (chunk_loop (decode sv) (encode sv (the (transcript p))) 200 0))
      else [])"

definition hv_part :: "post \<Rightarrow> chunk list" where
  "hv_part p =
     (if get_or 0 (likes p) > 1000 \<or> get_or 0 (engagement_rate p) > 500
      then (case create_high_value_chunk p of None \<Rightarrow> [] | Some c \<Rightarrow> [c]) else [])"

definition hv_chunk :: "post \<Rightarrow> chunk" where
  "hv_chunk p = the (create_high_value_chunk p)"

text \<open>Scenario A of the specification, and a viral post with a three-character caption.\<close>

definition scenario_a_post :: post where
  "scenario_a_post =
     \<lparr>post_id = Some ''A'', post_type = Some ''image'', post_date = None,
      caption_text = Some ''Check this out! #growth'', transcript = None, media_url = None,
      likes = Some 1500, comments = None, engagement_rate = None, hashtags = None\<rparr>"

definition short_viral_post :: post where
  "short_viral_post =
     \<lparr>post_id = Some ''B'', post_type = Some ''image'', post_date = None,
      caption_text = Some ''Hi!'', transcript = None, media_url = None,
      likes = Some 1500, comments = None, engagement_rate = None, hashtags = None\<rparr>"

definition scenario_a_semantic_chunk :: chunk where
  "scenario_a_semantic_chunk =
     \<lparr>chunk_text = ''Check this out! #growth'', chunk_type = ''semantic_caption'',
      topic_tags = [''caption''],
      post_metadata = extract_post_metadata scenario_a_post,
      chunk_index = Some 0, engagement_metrics = None,
      content_quality = Some 0.4\<rparr>"

definition scenario_a_high_value_chunk :: chunk where
  "scenario_a_high_value_chunk =
     \<lparr>chunk_text = ''Check this out! #growth'', chunk_type = ''high_value'',
      topic_tags = [''viral'', ''high_engagement''],
      post_metadata = extract_post_metadata scenario_a_post,
      chunk_index = None,
      engagement_metrics = Some \<lparr>em_likes = 1500, em_comments = 0, em_engagement_rate = 0\<rparr>,
      content_quality = Some 1\<rparr>"

subsection \<open>States, indexes and disks of the worked examples\<close>

text \<open>The knowledge base built from the post of scenario A while the remote service is
  unreachable, the one built from the viral post with the short caption, and an index
  without vectors.\<close>

definition empty_dir :: kb_dir where
  "empty_dir = \<lparr>faiss_index_bin = None, chunk_metadata_json = None\<rparr>"

definition empty_disk :: disk where
  "empty_disk = (\<lambda>creator_id. empty_dir)"

definition scenario_a_index :: faiss_index where
  "scenario_a_index = \<lparr>index_d = 384, xb = [unit_vector 384, unit_vector 384]\<rparr>"

definition scenario_a_state :: rag_state where
  "scenario_a_state =
     \<lparr>index = Some scenario_a_index,
      chunk_metadata = [scenario_a_semantic_chunk, scenario_a_high_value_chunk],
      embedding_dimension = 1536\<rparr>"

definition scenario_a_summary :: build_summary where
  "scenario_a_summary =
     \<lparr>bs_creator_id = 1, total_chunks = 2,
      chunk_types = {''semantic_caption'', ''high_value''},
      bs_embedding_dimension = 1536\<rparr>"

definition scenario_a_disk :: disk where
  "scenario_a_disk =
     empty_disk(1 := \<lparr>faiss_index_bin = Some (Some scenario_a_index),
        chunk_metadata_json = Some [scenario_a_semantic_chunk, scenario_a_high_value_chunk]\<rparr>)"

definition short_viral_chunk :: chunk where
  "short_viral_chunk =
     \<lparr>chunk_text = ''Hi!'', chunk_type = ''high_value'',
      topic_tags = [''viral'', ''high_engagement''],
      post_metadata = extract_post_metadata short_viral_post,
      chunk_index = None,
      engagement_metrics = Some \<lparr>em_likes = 1500, em_comments = 0, em_engagement_rate = 0\<rparr>,
      content_quality = Some 1\<rparr>"

definition short_viral_index :: faiss_index where
  "short_viral_index = \<lparr>index_d = 384, xb = [unit_vector 384]\<rparr>"

definition short_viral_state :: rag_state where
  "short_viral_state =
     \<lparr>index = Some short_viral_index, chunk_metadata = [short_viral_chunk],
      embedding_dimension = 1536\<rparr>"

definition empty_index_state :: rag_state where
  "empty_index_state =
     \<lparr>index = Some (IndexFlatIP 384), chunk_metadata = [], embedding_dimension = 1536\<rparr>"

text \<open>A knowledge base of two chunks whose final scores tie for the query vector of the
  worked examples: the first chunk has quality 0 and similarity 1, the second quality 0.4
  and similarity 0.96.\<close>

definition tilted_vector :: "nat \<Rightarrow> real list" where
  "tilted_vector n = 24 / 25 # 7 / 25 # replicate (n - 2) 0"

definition plain_post :: post where
  "plain_post =
     \<lparr>post_id = Some ''C'', post_type = Some ''image'', post_date = None,
      caption_text = Some ''Post every day for a month.'', transcript = None,
      media_url = None, likes = Some 0, comments = Some 0, engagement_rate = Some 0,
      hashtags = None\<rparr>"

definition plain_chunk :: chunk where
  "plain_chunk =
     \<lparr>chunk_text = ''Post every day for a month.'', chunk_type = ''semantic_caption'',
      topic_tags = [''caption''],
      post_metadata = extract_post_metadata plain_post,
      chunk_index = Some 0, engagement_metrics = None,
      content_quality = Some 0\<rparr>"

definition tie_index :: faiss_index where
  "tie_index = \<lparr>index_d = 384, xb = [unit_vector 384, tilted_vector 384]\<rparr>"

definition tie_state :: rag_state where
  "tie_state =
     \<lparr>index = Some tie_index,
      chunk_metadata = [plain_chunk, scenario_a_semantic_chunk],
      embedding_dimension = 1536\<rparr>"

subsection \<open>A tokenizer whose characters span two tokens\<close>



section \<open>Properties\<close>

subsection \<open>Strings\<close>

lemma starts_with_iff: "starts_with pat s \<longleftrightarrow> (\<exists>suf. s = pat @ suf)"
  by (induction pat s rule: starts_with.induct) auto

lemma str_contains_iff: "str_contains pat s \<longleftrightarrow> (\<exists>pre suf. s = pre @ pat @ suf)"
proof (induction s)
  case Nil
  then show ?case by auto
next
  case (Cons c cs)
  show ?case
  proof
    assume "str_contains pat (c # cs)"
    then consider "starts_with pat (c # cs)" | "str_contains pat cs" by auto
    then show "\<exists>pre suf. c # cs = pre @ pat @ suf"
    proof cases
      case 1
      then obtain suf where "c # cs = pat @ suf" by (auto simp: starts_with_iff)
      then have "c # cs = [] @ pat @ suf" by simp
      then show ?thesis by blast
    next
      case 2
      with Cons obtain pre suf where "cs = pre @ pat @ suf" by blast
      then have "c # cs = (c # pre) @ pat @ suf" by simp
      then show ?thesis by blast
    qed
  next
    assume "\<exists>pre suf. c # cs = pre @ pat @ suf"
    then obtain pre suf where e: "c # cs = pre @ pat @ suf" by blast
    show "str_contains pat (c # cs)"
    proof (cases pre)
      case Nil
      with e have "starts_with pat (c # cs)" by (auto simp: starts_with_iff)
      then show ?thesis by simp
    next
      case (Cons a pre')
      with e have "cs = pre' @ pat @ suf" by simp
      with Cons.IH have "str_contains pat cs" by blast
      then show ?thesis by simp
    qed
  qed
qed

text \<open>Stripping a stripped text changes nothing.\<close>

lemma strip_idem: "strip (strip s) = strip s"
proof -
  define t where "t = dropWhile is_space s"
  define u where "u = dropWhile is_space (rev t)"
  have st: "strip s = rev u" by (simp add: strip_def t_def u_def)
  have hd_t: "t \<noteq> [] \<Longrightarrow> \<not> is_space (hd t)"
    unfolding t_def by (rule hd_dropWhile)
  have hd_u: "u \<noteq> [] \<Longrightarrow> \<not> is_space (hd u)"
    unfolding u_def by (rule hd_dropWhile)
  have 1: "dropWhile is_space (rev u) = rev u"
  proof (cases "u = []")
    case True
    then show ?thesis by simp
  next
    case False
    obtain pre where pre: "rev t = pre @ u"
      unfolding u_def by (metis takeWhile_dropWhile_id)
    then have "t = rev u @ rev pre" by (metis rev_append rev_rev_ident)
    with False have "hd (rev u) = hd t" "t \<noteq> []" by auto
    with hd_t have "\<not> is_space (hd (rev u))" by simp
    with False show ?thesis by (cases "rev u") auto
  qed
  have 2: "dropWhile is_space u = u"
    using hd_u by (cases u) auto
  show ?thesis
    unfolding st by (simp add: strip_def 1 2)
qed

subsection \<open>The tokenizer windows\<close>




lemma offline_decode_encode: "decode offline_services (encode offline_services s) = s"
  by (simp add: offline_services_def comp_def)




text \<open>The fragments of a five-character text under a window of two tokens.\<close>

lemma chunk_by_tokens_example:
  "chunk_by_tokens offline_services ''hello'' 2 = Inr [''he'', ''ll'', ''o'']"
  by (simp add: chunk_by_tokens_def offline_services_def chunk_loop.simps char_of_def
      bit_Suc_0_iff)

subsection \<open>The quality score\<close>

text \<open>
  Claim C3. The quality score of any text and any post lies between 0 and 1, and it is
  the sum of the four bonuses (0.3 for 15 to 150 words, 0.4 for more than 1000 likes or
  else 0.2 for more than 500, 0.1 for a question mark, 0.2 for an advice marker) capped
  at 1. Arithmetic is over the reals.
\<close>

theorem assess_content_quality_range:
  "0 \<le> assess_content_quality text p \<and> assess_content_quality text p \<le> 1
   \<and> assess_content_quality text p =
       min ((if 15 \<le> length (split text) \<and> length (split text) \<le> 150 then 0.3 else 0)
            + (if get_or 0 (likes p) > 1000 then 0.4
               else if get_or 0 (likes p) > 500 then 0.2 else 0)
            + (if CHR ''?'' \<in> set text then 0.1 else 0)
            + (if \<exists>m\<in>set advice_markers. str_contains m (lower text) then 0.2 else 0)) 1"
  by (simp add: assess_content_quality_def Let_def list_ex_iff)

theorem assess_content_quality_range_witness:
  "0 \<le> assess_content_quality [] quiet_post \<and> assess_content_quality [] quiet_post \<le> 1
   \<and> assess_content_quality [] quiet_post = 0"
proof -
  have "length (split []) = 0" "get_or 0 (likes quiet_post) = 0"
    "\<not> (\<exists>m\<in>set advice_markers. str_contains m (lower []))"
    by (simp_all add: split_def quiet_post_def get_or_def advice_markers_def lower_def)
  with assess_content_quality_range [of "[]" quiet_post] show ?thesis by simp
qed

subsection \<open>The chunk builder\<close>

lemma chunk_semantically_Inr:
  "chunk_semantically sv content p ct =
     Inr (semantic_loop p ct (enumerate 0
        (chunk_loop (decode sv) (encode sv content) (if ct = ''transcript'' then 200 else 100) 0)))"
  by (simp add: chunk_semantically_def chunk_by_tokens_def)

lemma semantic_loop_props:
  "c \<in> set (semantic_loop p ct xs) \<Longrightarrow>
     chunk_type c = ''semantic_'' @ ct \<and> 20 \<le> length (strip (chunk_text c))
     \<and> (\<exists>f\<in>snd ` set xs. chunk_text c = strip f)"
  by (induction p ct xs rule: semantic_loop.induct) (auto simp: strip_idem split: if_splits)

lemma chunks_of_post_Inr:
  "chunks_of_post sv p = Inr (sem_part sv p @ hv_part p)"
  by (simp add: chunks_of_post_def chunk_semantically_Inr sem_part_def hv_part_def)

lemma sem_part_types:
  "c \<in> set (sem_part sv p) \<Longrightarrow>
     (chunk_type c = ''semantic_caption'' \<or> chunk_type c = ''semantic_transcript'')
     \<and> 20 \<le> length (strip (chunk_text c))"
  by (auto simp: sem_part_def split: if_splits dest!: semantic_loop_props)

lemma create_high_value_chunk_eq:
  "create_high_value_chunk p =
     (if truthy (caption_text p) \<or> truthy (transcript p) then Some (hv_chunk p) else None)"
  by (simp add: create_high_value_chunk_def hv_chunk_def)

lemma hv_chunk_fields:
  assumes "truthy (caption_text p) \<or> truthy (transcript p)"
  shows "chunk_type (hv_chunk p) = ''high_value''"
    and "chunk_text (hv_chunk p) = the (transcript_or_caption p)"
    and "topic_tags (hv_chunk p) = [''viral'', ''high_engagement'']"
    and "content_quality (hv_chunk p) = Some 1"
  using assms by (auto simp add: create_high_value_chunk_def hv_chunk_def)

lemma hv_part_eq:
  "hv_part p =
     (if (get_or 0 (likes p) > 1000 \<or> get_or 0 (engagement_rate p) > 500)
         \<and> (truthy (caption_text p) \<or> truthy (transcript p))
      then [hv_chunk p] else [])"
  by (simp add: hv_part_def create_high_value_chunk_eq)

lemma hv_part_types: "c \<in> set (hv_part p) \<Longrightarrow> chunk_type c = ''high_value''"
  by (auto simp: hv_part_eq hv_chunk_fields split: if_splits)

lemma ccs_total: "\<exists>cs. chunk_content_strategically sv posts prof = Inr cs"
  by (induction posts) (auto simp: chunks_of_post_Inr)

lemma ccs_append:
  "chunk_content_strategically sv ps1 prof = Inr c1 \<Longrightarrow>
   chunk_content_strategically sv ps2 prof = Inr c2 \<Longrightarrow>
   chunk_content_strategically sv (ps1 @ ps2) prof = Inr (c1 @ c2)"
  by (induction ps1 arbitrary: c1) (auto simp: chunks_of_post_Inr split: sum.splits)

lemma ccs_members:
  "chunk_content_strategically sv posts prof = Inr cs \<Longrightarrow> c \<in> set cs \<Longrightarrow>
     chunk_type c \<noteq> ''high_value'' \<Longrightarrow> 20 \<le> length (strip (chunk_text c))"
proof (induction posts arbitrary: cs)
  case Nil
  then show ?case by simp
next
  case (Cons p posts)
  from ccs_total [of sv posts prof] obtain rest
    where rest: "chunk_content_strategically sv posts prof = Inr rest"
    by blast
  with Cons.prems(1) have "cs = sem_part sv p @ hv_part p @ rest"
    by (simp add: chunks_of_post_Inr)
  with Cons.prems(2) consider "c \<in> set (sem_part sv p)"
    | "c \<in> set (hv_part p)" | "c \<in> set rest"
    by auto
  then show ?case
  proof cases
    case 1
    then show ?thesis using sem_part_types by blast
  next
    case 2
    with Cons.prems(3) show ?thesis by (simp add: hv_part_types)
  next
    case 3
    with Cons.IH [OF rest] Cons.prems(3) show ?thesis by simp
  qed
qed

lemma chunk_loop_single:
  assumes "tokens \<noteq> []" "length tokens \<le> n"
  shows "chunk_loop dec tokens n 0 = [dec tokens]"
proof -
  from assms have n: "0 < n" by (cases tokens) auto
  have "chunk_loop dec tokens n (0 + n) = []"
    using assms by (simp add: chunk_loop.simps [of dec tokens n n])
  then show ?thesis
    using assms n by (simp add: chunk_loop.simps [of dec tokens n 0])
qed

lemma scenario_a_chunks:
  "chunk_content_strategically offline_services [scenario_a_post] () =
     Inr [scenario_a_semantic_chunk, scenario_a_high_value_chunk]"
  by (simp add: chunks_of_post_def chunk_semantically_def chunk_by_tokens_def
      offline_services_def chunk_loop.simps scenario_a_post_def create_high_value_chunk_def
      transcript_or_caption_def get_or_def strip_def is_space_def char_of_def bit_Suc_0_iff
      assess_content_quality_def split_def lower_def lower_char_def advice_markers_def
      scenario_a_semantic_chunk_def scenario_a_high_value_chunk_def)

text \<open>
  Claim C6. A post with more than 1000 likes or an engagement rate above 500 that has a
  caption or a transcript contributes, after its semantic chunks, exactly one chunk of
  type \<open>high_value\<close>: its text is the whole transcript when there is one and the whole
  caption otherwise, its topic tags are \<open>viral\<close> and \<open>high_engagement\<close>, its quality
  score is 1. The chunks of the posts before and after it surround these in post order.
  Scenario A: a post with 1500 likes, the caption \<open>Check this out! #growth\<close> and no
  transcript gives one \<open>semantic_caption\<close> chunk and one \<open>high_value\<close> chunk, both with
  the caption as text, when the tokenizer encodes the caption in 1 to 100 tokens that
  decode to the caption.
\<close>

theorem high_value_chunk_emitted:
  assumes "get_or 0 (likes p) > 1000 \<or> get_or 0 (engagement_rate p) > 500"
      and "truthy (caption_text p) \<or> truthy (transcript p)"
  shows "(\<exists>before sem hv after.
            chunk_content_strategically sv earlier prof = Inr before
          \<and> chunk_content_strategically sv later prof = Inr after
          \<and> chunk_content_strategically sv (earlier @ p # later) prof = Inr (before @ sem @ [hv] @ after)
          \<and> chunk_content_strategically sv [p] prof = Inr (sem @ [hv])
          \<and> (\<forall>c\<in>set sem. chunk_type c = ''semantic_caption'' \<or> chunk_type c = ''semantic_transcript'')
          \<and> chunk_type hv = ''high_value''
          \<and> chunk_text hv = (if truthy (transcript p) then the (transcript p)
                              else the (caption_text p))
          \<and> topic_tags hv = [''viral'', ''high_engagement'']
          \<and> content_quality hv = Some 1)
       \<and> (likes pa = Some 1500 \<and> caption_text pa = Some ''Check this out! #growth''
            \<and> transcript pa = None
            \<and> encode sv ''Check this out! #growth'' \<noteq> []
            \<and> length (encode sv ''Check this out! #growth'') \<le> 100
            \<and> decode sv (encode sv ''Check this out! #growth'') = ''Check this out! #growth''
          \<longrightarrow> (\<exists>sem hv. chunk_content_strategically sv [pa] prof = Inr [sem, hv]
                \<and> chunk_type sem = ''semantic_caption''
                \<and> chunk_text sem = ''Check this out! #growth''
                \<and> chunk_type hv = ''high_value''
                \<and> chunk_text hv = ''Check this out! #growth''))"
proof
  from ccs_total [of sv earlier prof] obtain before
    where b: "chunk_content_strategically sv earlier prof = Inr before" by blast
  from ccs_total [of sv later prof] obtain after
    where a: "chunk_content_strategically sv later prof = Inr after" by blast
  have hv: "hv_part p = [hv_chunk p]"
    using assms by (simp add: hv_part_eq)
  have one: "chunk_content_strategically sv [p] prof = Inr (sem_part sv p @ [hv_chunk p])"
    by (simp add: chunks_of_post_Inr hv)
  have "chunk_content_strategically sv (p # later) prof = Inr (sem_part sv p @ [hv_chunk p] @ after)"
    by (simp add: chunks_of_post_Inr hv a)
  from ccs_append [OF b this]
  have all: "chunk_content_strategically sv (earlier @ p # later) prof
      = Inr (before @ sem_part sv p @ [hv_chunk p] @ after)" .
  have sem: "\<forall>c\<in>set (sem_part sv p).
      chunk_type c = ''semantic_caption'' \<or> chunk_type c = ''semantic_transcript''"
    using sem_part_types by blast
  have hvtext: "chunk_text (hv_chunk p) =
      (if truthy (transcript p) then the (transcript p) else the (caption_text p))"
    using assms(2) by (simp add: hv_chunk_fields transcript_or_caption_def)
  from b a all one sem hvtext hv_chunk_fields(1,3,4) [OF assms(2)]
  show "\<exists>before sem hv after.
            chunk_content_strategically sv earlier prof = Inr before
          \<and> chunk_content_strategically sv later prof = Inr after
          \<and> chunk_content_strategically sv (earlier @ p # later) prof = Inr (before @ sem @ [hv] @ after)
          \<and> chunk_content_strategically sv [p] prof = Inr (sem @ [hv])
          \<and> (\<forall>c\<in>set sem. chunk_type c = ''semantic_caption'' \<or> chunk_type c = ''semantic_transcript'')
          \<and> chunk_type hv = ''high_value''
          \<and> chunk_text hv = (if truthy (transcript p) then the (transcript p)
                              else the (caption_text p))
          \<and> topic_tags hv = [''viral'', ''high_engagement'']
          \<and> content_quality hv = Some 1"
    by blast
next
  let ?cap = "''Check this out! #growth''"
  show "likes pa = Some 1500 \<and> caption_text pa = Some ?cap \<and> transcript pa = None
            \<and> encode sv ?cap \<noteq> [] \<and> length (encode sv ?cap) \<le> 100
            \<and> decode sv (encode sv ?cap) = ?cap
          \<longrightarrow> (\<exists>sem hv. chunk_content_strategically sv [pa] prof = Inr [sem, hv]
                \<and> chunk_type sem = ''semantic_caption'' \<and> chunk_text sem = ?cap
                \<and> chunk_type hv = ''high_value'' \<and> chunk_text hv = ?cap)"
  proof
    assume h: "likes pa = Some 1500 \<and> caption_text pa = Some ?cap \<and> transcript pa = None
            \<and> encode sv ?cap \<noteq> [] \<and> length (encode sv ?cap) \<le> 100
            \<and> decode sv (encode sv ?cap) = ?cap"
    then have loop: "chunk_loop (decode sv) (encode sv ?cap) 100 0 = [?cap]"
      by (simp add: chunk_loop_single)
    have st: "strip ?cap = ?cap"
      by (simp add: strip_def is_space_def)
    obtain sem where sem: "sem_part sv pa = [sem]" "chunk_type sem = ''semantic_caption''"
      "chunk_text sem = ?cap"
      using h loop st by (simp add: sem_part_def)
    have t: "truthy (caption_text pa) \<or> truthy (transcript pa)"
      using h by simp
    have hv: "hv_part pa = [hv_chunk pa]"
      using h by (simp add: hv_part_eq get_or_def)
    have 1: "chunk_content_strategically sv [pa] prof = Inr [sem, hv_chunk pa]"
      by (simp add: chunks_of_post_Inr hv sem(1))
    have 2: "chunk_text (hv_chunk pa) = ?cap"
      using h by (simp add: hv_chunk_fields(2) [OF t] transcript_or_caption_def)
    from 1 2 sem(2,3) hv_chunk_fields(1) [OF t] show "\<exists>sem hv.
        chunk_content_strategically sv [pa] prof = Inr [sem, hv]
        \<and> chunk_type sem = ''semantic_caption'' \<and> chunk_text sem = ?cap
        \<and> chunk_type hv = ''high_value'' \<and> chunk_text hv = ?cap"
      by blast
  qed
qed

theorem high_value_chunk_emitted_witness:
  "(get_or 0 (likes scenario_a_post) > 1000 \<or> get_or 0 (engagement_rate scenario_a_post) > 500)
   \<and> (truthy (caption_text scenario_a_post) \<or> truthy (transcript scenario_a_post))
   \<and> likes scenario_a_post = Some 1500
   \<and> caption_text scenario_a_post = Some ''Check this out! #growth''
   \<and> transcript scenario_a_post = None
   \<and> encode offline_services ''Check this out! #growth'' \<noteq> []
   \<and> length (encode offline_services ''Check this out! #growth'') \<le> 100
   \<and> decode offline_services (encode offline_services ''Check this out! #growth'')
       = ''Check this out! #growth''
   \<and> (\<exists>sem hv. chunk_content_strategically offline_services [scenario_a_post] () = Inr [sem, hv]
         \<and> chunk_type sem = ''semantic_caption''
         \<and> chunk_text sem = ''Check this out! #growth''
         \<and> chunk_type hv = ''high_value''
         \<and> chunk_text hv = ''Check this out! #growth''
         \<and> topic_tags hv = [''viral'', ''high_engagement'']
         \<and> content_quality hv = Some 1)"
proof -
  let ?cap = "''Check this out! #growth''"
  have h1: "get_or 0 (likes scenario_a_post) > 1000 \<or> get_or 0 (engagement_rate scenario_a_post) > 500"
    by (simp add: scenario_a_post_def get_or_def)
  have h2: "truthy (caption_text scenario_a_post) \<or> truthy (transcript scenario_a_post)"
    by (simp add: scenario_a_post_def)
  have h3: "likes scenario_a_post = Some 1500 \<and> caption_text scenario_a_post = Some ?cap
      \<and> transcript scenario_a_post = None"
    by (simp add: scenario_a_post_def)
  have h4: "encode offline_services ?cap \<noteq> [] \<and> length (encode offline_services ?cap) \<le> 100"
    by (simp add: offline_services_def)
  have h5: "decode offline_services (encode offline_services ?cap) = ?cap"
    by (rule offline_decode_encode)
  note inst = high_value_chunk_emitted [where p = scenario_a_post and pa = scenario_a_post
      and sv = offline_services and earlier = "[]" and later = "[]" and prof = "()", OF h1 h2]
  from inst h3 h4 h5 obtain sem hv
    where two: "chunk_content_strategically offline_services [scenario_a_post] () = Inr [sem, hv]"
      "chunk_type sem = ''semantic_caption''" "chunk_text sem = ?cap"
      "chunk_type hv = ''high_value''" "chunk_text hv = ?cap"
    by blast
  from inst obtain sems hv' where one:
    "chunk_content_strategically offline_services [scenario_a_post] () = Inr (sems @ [hv'])"
    "topic_tags hv' = [''viral'', ''high_engagement'']" "content_quality hv' = Some 1"
    by blast
  from one(1) two(1) have "sems @ [hv'] = [sem] @ [hv]" by simp
  then have "hv' = hv" by (simp only: append1_eq_conv)
  with one two h1 h2 h3 h4 h5 show ?thesis by blast
qed

text \<open>
  Claim C5, as the code has it. Every chunk of the builder's output that is not of type
  \<open>high_value\<close> has a text of at least 20 characters after trimming: the semantic
  fragments below the threshold are discarded. A \<open>high_value\<close> chunk is the whole caption
  or transcript and passes no length check, as the three-character caption of a viral
  post shows.
\<close>

theorem short_fragments_discarded:
  "\<exists>cs. chunk_content_strategically sv posts prof = Inr cs
     \<and> (\<forall>c\<in>set cs. chunk_type c \<noteq> ''high_value'' \<longrightarrow> 20 \<le> length (strip (chunk_text c)))"
  using ccs_total [of sv posts prof] ccs_members [of sv posts prof] by blast

theorem short_fragments_discarded_witness:
  "chunk_content_strategically offline_services [scenario_a_post] ()
     = Inr [scenario_a_semantic_chunk, scenario_a_high_value_chunk]
   \<and> chunk_type scenario_a_semantic_chunk \<noteq> ''high_value''
   \<and> 20 \<le> length (strip (chunk_text scenario_a_semantic_chunk))"
proof -
  from short_fragments_discarded [of offline_services "[scenario_a_post]" "()"]
  have "\<forall>c\<in>set [scenario_a_semantic_chunk, scenario_a_high_value_chunk].
      chunk_type c \<noteq> ''high_value'' \<longrightarrow> 20 \<le> length (strip (chunk_text c))"
    unfolding scenario_a_chunks by blast
  moreover have "chunk_type scenario_a_semantic_chunk \<noteq> ''high_value''"
    by (simp add: scenario_a_semantic_chunk_def)
  ultimately show ?thesis using scenario_a_chunks by simp
qed

theorem short_high_value_chunk_counterexample:
  "chunk_content_strategically offline_services [short_viral_post] () =
     Inr [\<lparr>chunk_text = ''Hi!'', chunk_type = ''high_value'',
           topic_tags = [''viral'', ''high_engagement''],
           post_metadata = extract_post_metadata short_viral_post,
           chunk_index = None,
           engagement_metrics = Some \<lparr>em_likes = 1500, em_comments = 0, em_engagement_rate = 0\<rparr>,
           content_quality = Some 1\<rparr>]
   \<and> length (strip ''Hi!'') = 3"
  by (simp add: chunks_of_post_def chunk_semantically_def chunk_by_tokens_def
      offline_services_def chunk_loop.simps short_viral_post_def create_high_value_chunk_def
      transcript_or_caption_def get_or_def strip_def is_space_def char_of_def bit_Suc_0_iff)

subsection \<open>Building a knowledge base\<close>

lemma length_unit_vector: "0 < n \<Longrightarrow> length (unit_vector n) = n"
  by (simp add: unit_vector_def)

lemma normalize_unit_vector: "normalize_row (unit_vector n) = unit_vector n"
  by (simp add: normalize_row_def unit_vector_def Let_def sum_list_replicate)

lemma inner_product_unit_vector: "inner_product (unit_vector n) (unit_vector n) = 1"
  by (simp add: inner_product_def unit_vector_def sum_list_replicate)

lemma generate_embeddings_Nil: "generate_embeddings sv [] = Inr \<lparr>shape = [0], rows = []\<rparr>"
  by (simp add: generate_embeddings_def embed_loop.simps np_array_def)

lemma build_faiss_index_empty: "build_faiss_index \<lparr>shape = [0], rows = []\<rparr> chunks st = Inl IndexError"
  by (simp add: build_faiss_index_def shape_at_def)

lemma ccs_no_text:
  "\<forall>p\<in>set posts. \<not> truthy (caption_text p) \<and> \<not> truthy (transcript p) \<Longrightarrow>
     chunk_content_strategically sv posts prof = Inr []"
  by (induction posts) (simp_all add: chunks_of_post_def create_high_value_chunk_def)

text \<open>
  Claim C10. When the posts yield no chunk (an empty list of posts, or posts that all lack
  caption and transcript), \<open>create_knowledge_base\<close> raises \<open>IndexError\<close> and returns no
  build summary: the embedding matrix of no chunks has the shape \<open>(0,)\<close>, and building
  the index reads the second entry of that shape.
\<close>

theorem create_knowledge_base_no_chunks:
  "(chunk_content_strategically sv posts prof = Inr []
      \<longrightarrow> create_knowledge_base sv fault st dk creator_id posts prof = Inl IndexError)
   \<and> ((\<forall>p\<in>set posts. \<not> truthy (caption_text p) \<and> \<not> truthy (transcript p))
      \<longrightarrow> create_knowledge_base sv fault st dk creator_id posts prof = Inl IndexError)
   \<and> generate_embeddings sv [] = Inr \<lparr>shape = [0], rows = []\<rparr>
   \<and> shape_at \<lparr>shape = [0], rows = []\<rparr> 1 = Inl IndexError
   \<and> build_faiss_index \<lparr>shape = [0], rows = []\<rparr> [] st = Inl IndexError"
proof -
  have a: "chunk_content_strategically sv posts prof = Inr []
      \<Longrightarrow> create_knowledge_base sv fault st dk creator_id posts prof = Inl IndexError"
    by (simp add: create_knowledge_base_def generate_embeddings_Nil build_faiss_index_empty)
  have b: "\<forall>p\<in>set posts. \<not> truthy (caption_text p) \<and> \<not> truthy (transcript p)
      \<Longrightarrow> create_knowledge_base sv fault st dk creator_id posts prof = Inl IndexError"
    using a ccs_no_text [of posts sv prof] by blast
  have c: "shape_at \<lparr>shape = [0], rows = []\<rparr> 1 = Inl IndexError"
    by (simp add: shape_at_def)
  from a b c show ?thesis
    by (simp add: generate_embeddings_Nil build_faiss_index_empty)
qed

theorem create_knowledge_base_no_chunks_witness:
  "chunk_content_strategically offline_services [] () = Inr []
   \<and> create_knowledge_base offline_services NoFault init_state empty_disk 1 [] () = Inl IndexError
   \<and> \<not> truthy (caption_text quiet_post) \<and> \<not> truthy (transcript quiet_post)
   \<and> create_knowledge_base offline_services NoFault init_state empty_disk 1 [quiet_post] ()
       = Inl IndexError"
proof -
  have h1: "chunk_content_strategically offline_services [] () = Inr []" by simp
  have q: "\<not> truthy (caption_text quiet_post)" "\<not> truthy (transcript quiet_post)"
    by (simp_all add: quiet_post_def)
  then have h2: "\<forall>p\<in>set [quiet_post]. \<not> truthy (caption_text p) \<and> \<not> truthy (transcript p)"
    by simp
  from create_knowledge_base_no_chunks [of offline_services "[]" "()" NoFault init_state empty_disk 1] h1
  have a: "create_knowledge_base offline_services NoFault init_state empty_disk 1 [] () = Inl IndexError"
    by blast
  from create_knowledge_base_no_chunks [of offline_services "[quiet_post]" "()" NoFault init_state empty_disk 1] h2
  have b: "create_knowledge_base offline_services NoFault init_state empty_disk 1 [quiet_post] () = Inl IndexError"
    by blast
  from h1 q a b show ?thesis by blast
qed

lemma scenario_a_embeddings:
  "generate_embeddings offline_services [scenario_a_semantic_chunk, scenario_a_high_value_chunk]
     = Inr \<lparr>shape = [2, 384], rows = [unit_vector 384, unit_vector 384]\<rparr>"
  by (simp add: generate_embeddings_def embed_loop.simps offline_services_def np_array_def
      length_unit_vector)

lemma scenario_a_build:
  "build_faiss_index \<lparr>shape = [2, 384], rows = [unit_vector 384, unit_vector 384]\<rparr>
     [scenario_a_semantic_chunk, scenario_a_high_value_chunk] init_state = Inr scenario_a_state"
  by (simp add: build_faiss_index_def shape_at_def IndexFlatIP_def normalize_L2_def
      index_add_def normalize_unit_vector init_state_def scenario_a_state_def scenario_a_index_def)

text \<open>The embedding dimension of a build summary is the one the object held before the
  build.\<close>

lemma create_knowledge_base_dimension:
  "create_knowledge_base sv fault st dk creator_id posts prof = Inr (summary, st1, dk1) \<Longrightarrow>
     bs_embedding_dimension summary = embedding_dimension st"
  by (auto simp: create_knowledge_base_def build_faiss_index_def
      split: sum.splits prod.splits option.splits)

text \<open>
  Claim C9, at a build whose batches all fall back to the local model. The post of
  scenario A is built while the remote service is unreachable: the vectors generated and
  indexed have 384 entries and the index has dimension 384, and the build summary reports
  the embedding dimension 1536, the value the constructor stored.
\<close>

theorem embedding_dimension_stale:
  "create_knowledge_base offline_services NoFault init_state empty_disk 1 [scenario_a_post] ()
     = Inr (scenario_a_summary, scenario_a_state,
            empty_disk(1 := \<lparr>faiss_index_bin = Some (Some scenario_a_index),
               chunk_metadata_json = Some [scenario_a_semantic_chunk, scenario_a_high_value_chunk]\<rparr>))
   \<and> bs_embedding_dimension scenario_a_summary = 1536
   \<and> index scenario_a_state = Some scenario_a_index
   \<and> index_d scenario_a_index = 384
   \<and> list_all (\<lambda>v. length v = 384) (xb scenario_a_index)"
proof -
  have types: "chunk_type scenario_a_semantic_chunk = ''semantic_caption''"
    "chunk_type scenario_a_high_value_chunk = ''high_value''"
    by (simp_all add: scenario_a_semantic_chunk_def scenario_a_high_value_chunk_def)
  have stale: "embedding_dimension scenario_a_state = 1536"
    by (simp add: scenario_a_state_def)
  have save: "save_knowledge_base NoFault scenario_a_state 1 empty_disk =
     (None, empty_disk(1 := \<lparr>faiss_index_bin = Some (Some scenario_a_index),
               chunk_metadata_json = Some [scenario_a_semantic_chunk, scenario_a_high_value_chunk]\<rparr>))"
    by (simp add: save_knowledge_base_def scenario_a_state_def write_index_file_def
        write_metadata_file_def empty_disk_def empty_dir_def)
  have "create_knowledge_base offline_services NoFault init_state empty_disk 1 [scenario_a_post] ()
     = Inr (scenario_a_summary, scenario_a_state,
            empty_disk(1 := \<lparr>faiss_index_bin = Some (Some scenario_a_index),
               chunk_metadata_json = Some [scenario_a_semantic_chunk, scenario_a_high_value_chunk]\<rparr>))"
    unfolding create_knowledge_base_def scenario_a_chunks
    by (simp add: scenario_a_embeddings scenario_a_build save types scenario_a_summary_def
        stale)
  then show ?thesis
    by (simp add: scenario_a_summary_def scenario_a_state_def scenario_a_index_def
        length_unit_vector)
qed

subsection \<open>Saving and loading\<close>

text \<open>
  Claim C8, as the code has it. The save writes the index file and then the metadata
  file, in place. A save that completes is loaded back as the saved index and chunks. A
  save that fails leaves the disk unchanged, or a state that a later load rejects, or,
  when it fails between the two writes and the creator has an earlier metadata file, the
  new index beside that earlier file. For a creator without an earlier metadata file a
  failed save is never accepted by a later load. The directories of other creators are
  not touched.
\<close>

theorem save_knowledge_base_outcomes:
  assumes "index st = Some ix"
  shows "(fault = NoFault \<longrightarrow>
            fst (save_knowledge_base fault st cid dk) = None
          \<and> load_knowledge_base st0 cid (snd (save_knowledge_base fault st cid dk))
              = (True, st0\<lparr>index := Some ix, chunk_metadata := chunk_metadata st\<rparr>))
       \<and> (fault \<noteq> NoFault \<longrightarrow>
            fst (save_knowledge_base fault st cid dk) \<noteq> None
          \<and> (snd (save_knowledge_base fault st cid dk) = dk
              \<or> fst (load_knowledge_base st0 cid (snd (save_knowledge_base fault st cid dk))) = False
              \<or> (fault = OpenMetadataFails
                  \<and> chunk_metadata_json (dk cid) \<noteq> None
                  \<and> snd (save_knowledge_base fault st cid dk) cid
                      = \<lparr>faiss_index_bin = Some (Some ix),
                         chunk_metadata_json = chunk_metadata_json (dk cid)\<rparr>)))
       \<and> (fault \<noteq> NoFault \<and> chunk_metadata_json (dk cid) = None \<longrightarrow>
            fst (load_knowledge_base st0 cid (snd (save_knowledge_base fault st cid dk))) = False)
       \<and> (\<forall>other. other \<noteq> cid \<longrightarrow> snd (save_knowledge_base fault st cid dk) other = dk other)"
  using assms
  by (cases fault)
     (auto simp add: save_knowledge_base_def load_knowledge_base_def write_index_file_def
        write_metadata_file_def Let_def split: option.splits)

theorem save_knowledge_base_outcomes_witness:
  "index short_viral_state = Some short_viral_index
   \<and> NoFault = NoFault
   \<and> load_knowledge_base init_state 1
        (snd (save_knowledge_base NoFault short_viral_state 1 scenario_a_disk))
       = (True, init_state\<lparr>index := Some short_viral_index,
                  chunk_metadata := chunk_metadata short_viral_state\<rparr>)
   \<and> OpenMetadataFails \<noteq> NoFault
   \<and> chunk_metadata_json (empty_disk 1) = None
   \<and> fst (load_knowledge_base init_state 1
        (snd (save_knowledge_base OpenMetadataFails short_viral_state 1 empty_disk))) = False
   \<and> (2::int) \<noteq> 1
   \<and> snd (save_knowledge_base OpenMetadataFails short_viral_state 1 scenario_a_disk) 2
       = scenario_a_disk 2"
proof -
  have h: "index short_viral_state = Some short_viral_index"
    by (simp add: short_viral_state_def)
  have e: "chunk_metadata_json (empty_disk 1) = None"
    by (simp add: empty_disk_def empty_dir_def)
  from save_knowledge_base_outcomes [OF h, of NoFault 1 scenario_a_disk init_state]
  have a: "load_knowledge_base init_state 1
        (snd (save_knowledge_base NoFault short_viral_state 1 scenario_a_disk))
       = (True, init_state\<lparr>index := Some short_viral_index,
                  chunk_metadata := chunk_metadata short_viral_state\<rparr>)"
    by blast
  from save_knowledge_base_outcomes [OF h, of OpenMetadataFails 1 empty_disk init_state] e
  have b: "fst (load_knowledge_base init_state 1
        (snd (save_knowledge_base OpenMetadataFails short_viral_state 1 empty_disk))) = False"
    by blast
  from save_knowledge_base_outcomes [OF h, of OpenMetadataFails 1 scenario_a_disk init_state]
  have c: "snd (save_knowledge_base OpenMetadataFails short_viral_state 1 scenario_a_disk) 2
       = scenario_a_disk 2"
    by simp
  from h e a b c show ?thesis by simp
qed

text \<open>The save of a rebuilt knowledge base with one vector fails between its two writes
  over the files of an earlier build with two chunks: the load that follows accepts one
  vector with two chunks.\<close>

theorem save_not_atomic_counterexample:
  "save_knowledge_base OpenMetadataFails short_viral_state 1 scenario_a_disk =
     (Some OSError,
      scenario_a_disk(1 := \<lparr>faiss_index_bin = Some (Some short_viral_index),
         chunk_metadata_json = Some [scenario_a_semantic_chunk, scenario_a_high_value_chunk]\<rparr>))
   \<and> load_knowledge_base init_state 1
        (scenario_a_disk(1 := \<lparr>faiss_index_bin = Some (Some short_viral_index),
           chunk_metadata_json = Some [scenario_a_semantic_chunk, scenario_a_high_value_chunk]\<rparr>))
       = (True, \<lparr>index = Some short_viral_index,
                 chunk_metadata = [scenario_a_semantic_chunk, scenario_a_high_value_chunk],
                 embedding_dimension = 1536\<rparr>)
   \<and> ntotal short_viral_index = 1
   \<and> length [scenario_a_semantic_chunk, scenario_a_high_value_chunk] = 2"
  by (simp add: save_knowledge_base_def load_knowledge_base_def short_viral_state_def
      scenario_a_disk_def write_index_file_def init_state_def ntotal_def short_viral_index_def)

subsection \<open>Searching\<close>

text \<open>The result heap of the index search: its size stays, its pairs are the initial ones
  or stored vectors, and it stays in ascending order.\<close>

lemma length_add_result: "length (add_result heap hit) = length heap"
  by (cases heap) (simp_all add: add_result_def)

lemma set_add_result: "set (add_result heap hit) \<subseteq> insert hit (set heap)"
  by (cases heap) (auto simp: add_result_def set_insort_key)

lemma sorted_add_result: "sorted heap \<Longrightarrow> sorted (add_result heap hit)"
  by (cases heap) (auto simp: add_result_def sorted_insort)

lemma foldl_add_result:
  "length (foldl add_result heap hits) = length heap
   \<and> set (foldl add_result heap hits) \<subseteq> set heap \<union> set hits
   \<and> (sorted heap \<longrightarrow> sorted (foldl add_result heap hits))"
proof (induction hits arbitrary: heap)
  case Nil
  then show ?case by simp
next
  case (Cons h hits)
  from Cons [of "add_result heap h"] set_add_result [of heap h]
  show ?case by (auto simp: length_add_result sorted_add_result)
qed

lemma index_search_heap:
  assumes "index_search ix q k = Inr hits"
  shows "hits = rev (foldl add_result (replicate (nat k) (- FLT_MAX, - 1))
           (zip (map (inner_product q) (xb ix)) (map int [0..<length (xb ix)])))"
  using assms by (auto simp: index_search_def Let_def split: if_splits)

lemma index_search_length:
  assumes "index_search ix q k = Inr hits"
  shows "length hits = nat k"
  unfolding index_search_heap [OF assms] by (simp add: foldl_add_result)

lemma index_search_labels:
  assumes "index_search ix q k = Inr hits" "(s, i) \<in> set hits"
  shows "- 1 \<le> i \<and> i < int (ntotal ix)"
proof -
  let ?scored = "zip (map (inner_product q) (xb ix)) (map int [0..<length (xb ix)])"
  let ?init = "replicate (nat k) (- FLT_MAX, - 1 :: int)"
  from assms(2) have "(s, i) \<in> set (foldl add_result ?init ?scored)"
    unfolding index_search_heap [OF assms(1)] by simp
  with foldl_add_result [of ?init ?scored] have "(s, i) \<in> set ?init \<union> set ?scored"
    by blast
  then consider "i = - 1" | "(s, i) \<in> set ?scored"
    by auto
  then show ?thesis
  proof cases
    case 1
    then show ?thesis by simp
  next
    case 2
    then have "i \<in> set (map int [0..<length (xb ix)])"
      by (rule set_zip_rightD)
    then show ?thesis by (auto simp: ntotal_def)
  qed
qed

text \<open>The scores of an index search never increase along the result.\<close>

lemma index_search_sorted:
  assumes "index_search ix q k = Inr hits"
  shows "sorted_wrt (\<lambda>a b. fst b \<le> fst a) hits"
proof -
  let ?heap = "foldl add_result (replicate (nat k) (- FLT_MAX, - 1 :: int))
           (zip (map (inner_product q) (xb ix)) (map int [0..<length (xb ix)]))"
  have "sorted ?heap"
    using foldl_add_result [of "replicate (nat k) (- FLT_MAX, - 1)"] by simp
  then have "sorted_wrt (\<lambda>a b. fst a \<le> fst b) ?heap"
    by (rule sorted_wrt_mono_rel [rotated]) (auto simp: less_eq_prod_def)
  then have "sorted_wrt (\<lambda>a b. fst b \<le> fst a) (rev ?heap)"
    by (simp add: sorted_wrt_rev)
  then show ?thesis
    unfolding index_search_heap [OF assms] .
qed

text \<open>The loop over the hits keeps, in order, the hits whose label is below the number of
  chunks; each becomes the chunk at that label with the hit's score as similarity and the
  score plus a tenth of the chunk's stored quality (0.5 without one) as final score.\<close>

lemma collect_results_hits:
  "collect_results md hits = Inr rs \<Longrightarrow>
     list_all2 (\<lambda>r hit. \<exists>c. list_getitem md (snd hit) = Inr c
                  \<and> chunk.truncate r = c
                  \<and> similarity_score r = fst hit
                  \<and> final_score r
                      = fst hit + (case content_quality c of None \<Rightarrow> 0.5 | Some q \<Rightarrow> q) * 0.1)
       rs (filter (\<lambda>hit. snd hit < int (length md)) hits)"
proof (induction md hits arbitrary: rs rule: collect_results.induct)
  case (1 metadata)
  then show ?case by simp
next
  case (2 metadata score idx hits)
  show ?case
  proof (cases "idx < int (length metadata)")
    case False
    with 2 show ?thesis by simp
  next
    case True
    with "2.prems" obtain c rest where c: "list_getitem metadata idx = Inr c"
      and rest: "collect_results metadata hits = Inr rest"
      and rs: "rs = make_result c score # rest"
      by (auto split: sum.splits)
    have "chunk.truncate (make_result c score) = c"
      "similarity_score (make_result c score) = score"
      "final_score (make_result c score)
         = score + (case content_quality c of None \<Rightarrow> 0.5 | Some q \<Rightarrow> q) * 0.1"
      by (simp_all add: make_result_def chunk.truncate_def get_or_def split: option.splits)
    with "2.IH"(1) [OF True c rest] True c rs show ?thesis by simp
  qed
qed

lemma list_all2_map_eq:
  "list_all2 (\<lambda>x y. f x = g y \<and> P x y) xs ys \<Longrightarrow> map f xs = map g ys"
  by (induction xs ys rule: list_all2_induct) simp_all

text \<open>
  Claim C2. When a search on a loaded index returns, there are the hits of the index
  search for the normalized query embedding and the candidates made of them: one
  candidate, in order, for every hit whose label is below the number of chunks, which is
  a copy of the chunk at that label with the hit's score as \<open>similarity_score\<close> and
  \<open>final_score = similarity + quality * 0.1\<close>, the quality being the one stored on that
  chunk, or 0.5 when the chunk stores none. The candidates are in descending order of
  similarity. The results are the candidates in descending order of \<open>final_score\<close>, and
  the sort is stable: the results of any one \<open>final_score\<close> are in the order they had
  among the candidates.
\<close>

theorem search_knowledge_rerank:
  assumes "index st = Some ix"
      and "search_knowledge sv st query k = Inr results"
  shows "\<exists>query_embedding hits cands.
             embed_query sv query = Inr query_embedding
           \<and> index_search ix (normalize_row query_embedding) k = Inr hits
           \<and> list_all2 (\<lambda>r hit. \<exists>c. list_getitem (chunk_metadata st) (snd hit) = Inr c
                  \<and> chunk.truncate r = c
                  \<and> similarity_score r = fst hit
                  \<and> final_score r
                      = fst hit + (case content_quality c of None \<Rightarrow> 0.5 | Some q \<Rightarrow> q) * 0.1)
               cands (filter (\<lambda>hit. snd hit < int (length (chunk_metadata st))) hits)
           \<and> sorted_wrt (\<lambda>a b. similarity_score a \<ge> similarity_score b) cands
           \<and> mset results = mset cands
           \<and> sorted_wrt (\<lambda>a b. final_score a \<ge> final_score b) results
           \<and> (\<forall>s. filter (\<lambda>r. final_score r = s) results
                    = filter (\<lambda>r. final_score r = s) cands)"
proof -
  let ?md = "chunk_metadata st"
  from assms obtain qe hits cands
    where qe: "embed_query sv query = Inr qe"
      and hits: "index_search ix (normalize_row qe) k = Inr hits"
      and cands: "collect_results ?md hits = Inr cands"
      and results: "results = sort_key (\<lambda>r. - final_score r) cands"
    by (auto simp: search_knowledge_def search_candidates_def split: sum.splits)
  note rel = collect_results_hits [OF cands]
  let ?kept = "filter (\<lambda>hit. snd hit < int (length ?md)) hits"
  from rel have "list_all2 (\<lambda>r hit. similarity_score r = fst hit \<and> True) cands ?kept"
    by (rule list_all2_mono) auto
  then have sims: "map similarity_score cands = map fst ?kept"
    by (rule list_all2_map_eq)
  have "sorted_wrt (\<lambda>a b. fst b \<le> fst a) ?kept"
    using index_search_sorted [OF hits] by (rule sorted_wrt_filter)
  then have "sorted_wrt (\<lambda>a b. b \<le> a) (map fst ?kept)"
    by (simp add: sorted_wrt_map)
  then have "sorted_wrt (\<lambda>a b. b \<le> a) (map similarity_score cands)"
    by (simp only: sims)
  then have 0: "sorted_wrt (\<lambda>a b. similarity_score a \<ge> similarity_score b) cands"
    by (simp add: sorted_wrt_map)
  have 1: "mset results = mset cands"
    by (simp add: results)
  have "sorted (map (\<lambda>r. - final_score r) results)"
    unfolding results by (rule sorted_sort_key)
  then have 3: "sorted_wrt (\<lambda>a b. final_score a \<ge> final_score b) results"
    by (simp add: sorted_map)
  have 4: "filter (\<lambda>r. final_score r = s) results = filter (\<lambda>r. final_score r = s) cands" for s
    using sort_key_stable [of "\<lambda>r. - final_score r" "- s" cands]
    by (simp add: results)
  from qe hits rel 0 1 3 4 show ?thesis by blast
qed

lemma embed_query_offline: "embed_query offline_services query = Inr (unit_vector 384)"
  by (simp add: embed_query_def offline_services_def)

lemma final_score_make_result:
  "final_score (make_result c s) = s + get_or 0.5 (content_quality c) * 0.1"
  "similarity_score (make_result c s) = s"
  "content_quality (make_result c s) = content_quality c"
  by (simp_all add: make_result_def)

lemma scenario_a_quality:
  "content_quality scenario_a_semantic_chunk = Some 0.4"
  "content_quality scenario_a_high_value_chunk = Some 1"
  by (simp_all add: scenario_a_semantic_chunk_def scenario_a_high_value_chunk_def)

text \<open>The knowledge base of the tie: its first chunk is what the builder makes of a post
  without engagement, and the index search separates its two vectors.\<close>

lemma plain_post_chunks:
  "chunk_content_strategically offline_services [plain_post] () = Inr [plain_chunk]"
  by (simp add: chunks_of_post_def chunk_semantically_def chunk_by_tokens_def
      offline_services_def chunk_loop.simps plain_post_def
      get_or_def strip_def is_space_def char_of_def bit_Suc_0_iff
      assess_content_quality_def split_def lower_def lower_char_def advice_markers_def
      plain_chunk_def)

lemma length_tilted_vector: "2 \<le> n \<Longrightarrow> length (tilted_vector n) = n"
  by (simp add: tilted_vector_def)

lemma inner_product_tilted_vector:
  assumes "2 \<le> n"
  shows "inner_product (unit_vector n) (tilted_vector n) = 24 / 25"
proof -
  from assms obtain m where "n = Suc (Suc m)"
    by (metis Suc_le_D numeral_2_eq_2 Suc_le_mono)
  then show ?thesis
    by (simp add: inner_product_def unit_vector_def tilted_vector_def sum_list_replicate)
qed

lemma tie_hits:
  "index_search tie_index (unit_vector 384) 2 = Inr [(1, 0), (24 / 25, 1)]"
  by (simp add: index_search_def tie_index_def length_unit_vector
      inner_product_unit_vector inner_product_tilted_vector upt_rec_numeral
      numeral_eq_Suc add_result_def FLT_MAX_def)

lemma tie_search:
  "search_knowledge offline_services tie_state query 2
     = Inr [make_result plain_chunk 1, make_result scenario_a_semantic_chunk (24 / 25)]"
  by (simp add: search_knowledge_def tie_state_def search_candidates_def embed_query_offline
      normalize_unit_vector tie_hits list_getitem_def final_score_make_result
      scenario_a_quality plain_chunk_def get_or_def)

theorem search_knowledge_rerank_witness:
  "index tie_state = Some tie_index
   \<and> search_knowledge offline_services tie_state ''marketing tips'' 2
       = Inr [make_result plain_chunk 1, make_result scenario_a_semantic_chunk (24 / 25)]
   \<and> content_quality plain_chunk = Some 0
   \<and> content_quality scenario_a_semantic_chunk = Some (4 / 10)
   \<and> final_score (make_result plain_chunk 1) = 1
   \<and> final_score (make_result scenario_a_semantic_chunk (24 / 25)) = 1
   \<and> (\<exists>query_embedding hits cands.
         embed_query offline_services ''marketing tips'' = Inr query_embedding
       \<and> index_search tie_index (normalize_row query_embedding) 2 = Inr hits
       \<and> hits = [(1, 0), (24 / 25, 1)]
       \<and> list_all2 (\<lambda>r hit. \<exists>c. list_getitem (chunk_metadata tie_state) (snd hit) = Inr c
              \<and> chunk.truncate r = c
              \<and> similarity_score r = fst hit
              \<and> final_score r
                  = fst hit + (case content_quality c of None \<Rightarrow> 0.5 | Some q \<Rightarrow> q) * 0.1)
           cands (filter (\<lambda>hit. snd hit < int (length (chunk_metadata tie_state))) hits)
       \<and> sorted_wrt (\<lambda>a b. similarity_score a \<ge> similarity_score b) cands
       \<and> mset [make_result plain_chunk 1, make_result scenario_a_semantic_chunk (24 / 25)]
           = mset cands
       \<and> sorted_wrt (\<lambda>a b. final_score a \<ge> final_score b)
           [make_result plain_chunk 1, make_result scenario_a_semantic_chunk (24 / 25)]
       \<and> (\<forall>s. filter (\<lambda>r. final_score r = s)
                  [make_result plain_chunk 1, make_result scenario_a_semantic_chunk (24 / 25)]
               = filter (\<lambda>r. final_score r = s) cands))"
proof -
  have h1: "index tie_state = Some tie_index"
    by (simp add: tie_state_def)
  have h2: "search_knowledge offline_services tie_state ''marketing tips'' 2
       = Inr [make_result plain_chunk 1, make_result scenario_a_semantic_chunk (24 / 25)]"
    by (rule tie_search)
  have q: "content_quality plain_chunk = Some 0"
    "content_quality scenario_a_semantic_chunk = Some (4 / 10)"
    by (simp_all add: plain_chunk_def scenario_a_semantic_chunk_def)
  have f: "final_score (make_result plain_chunk 1) = 1"
    "final_score (make_result scenario_a_semantic_chunk (24 / 25)) = 1"
    by (simp_all add: final_score_make_result q get_or_def)
  from search_knowledge_rerank [OF h1 h2] obtain qe hits cands
    where a: "embed_query offline_services ''marketing tips'' = Inr qe"
      and b: "index_search tie_index (normalize_row qe) 2 = Inr hits"
      and rest: "list_all2 (\<lambda>r hit. \<exists>c. list_getitem (chunk_metadata tie_state) (snd hit) = Inr c
              \<and> chunk.truncate r = c
              \<and> similarity_score r = fst hit
              \<and> final_score r
                  = fst hit + (case content_quality c of None \<Rightarrow> 0.5 | Some q \<Rightarrow> q) * 0.1)
           cands (filter (\<lambda>hit. snd hit < int (length (chunk_metadata tie_state))) hits)"
        "sorted_wrt (\<lambda>a b. similarity_score a \<ge> similarity_score b) cands"
        "mset [make_result plain_chunk 1, make_result scenario_a_semantic_chunk (24 / 25)]
           = mset cands"
        "sorted_wrt (\<lambda>a b. final_score a \<ge> final_score b)
           [make_result plain_chunk 1, make_result scenario_a_semantic_chunk (24 / 25)]"
        "\<forall>s. filter (\<lambda>r. final_score r = s)
                  [make_result plain_chunk 1, make_result scenario_a_semantic_chunk (24 / 25)]
               = filter (\<lambda>r. final_score r = s) cands"
    by blast
  from a have "qe = unit_vector 384"
    by (simp add: embed_query_offline)
  with b have c: "hits = [(1, 0), (24 / 25, 1)]"
    by (simp add: normalize_unit_vector tie_hits)
  from h1 h2 q f a b c rest show ?thesis by blast
qed

text \<open>The hits and the candidates of the knowledge base of scenario A for five results.\<close>

lemma scenario_a_hits_5:
  "index_search scenario_a_index (unit_vector 384) 5
     = Inr [(1, 1), (1, 0), (- FLT_MAX, - 1), (- FLT_MAX, - 1), (- FLT_MAX, - 1)]"
  by (simp add: index_search_def scenario_a_index_def length_unit_vector
      inner_product_unit_vector upt_rec_numeral numeral_eq_Suc add_result_def FLT_MAX_def)

lemma scenario_a_candidates_5:
  "search_candidates offline_services scenario_a_index
      [scenario_a_semantic_chunk, scenario_a_high_value_chunk] query 5
     = Inr [make_result scenario_a_high_value_chunk 1,
            make_result scenario_a_semantic_chunk 1,
            make_result scenario_a_high_value_chunk (- FLT_MAX),
            make_result scenario_a_high_value_chunk (- FLT_MAX),
            make_result scenario_a_high_value_chunk (- FLT_MAX)]"
  by (simp add: search_candidates_def embed_query_offline normalize_unit_vector
      scenario_a_hits_5 list_getitem_def)

text \<open>The number of results of a search on a knowledge base whose chunk list is not empty
  and as long as its index: always \<open>k\<close>, whatever the number of vectors.\<close>

lemma list_getitem_in_range:
  "xs \<noteq> [] \<Longrightarrow> - 1 \<le> i \<Longrightarrow> i < int (length xs) \<Longrightarrow> \<exists>x. list_getitem xs i = Inr x"
  by (cases xs) (auto simp: list_getitem_def)

lemma collect_results_all:
  assumes "md \<noteq> []"
  shows "\<forall>(s, i)\<in>set hits. - 1 \<le> i \<and> i < int (length md) \<Longrightarrow>
     \<exists>rs. collect_results md hits = Inr rs \<and> length rs = length hits"
proof (induction hits)
  case Nil
  then show ?case by simp
next
  case (Cons h hits)
  obtain s i where h: "h = (s, i)" by (cases h)
  with Cons.prems have i: "- 1 \<le> i" "i < int (length md)" by auto
  from list_getitem_in_range [OF assms i] obtain c where c: "list_getitem md i = Inr c"
    by blast
  from Cons obtain rs where rs: "collect_results md hits = Inr rs" "length rs = length hits"
    by auto
  from h i c rs show ?case by simp
qed

lemma search_knowledge_count:
  assumes "index st = Some ix" "chunk_metadata st \<noteq> []"
      and "length (chunk_metadata st) = ntotal ix"
      and "search_knowledge sv st query k = Inr results"
  shows "length results = nat k"
proof -
  from assms(1,4) obtain qe hits cands
    where hits: "index_search ix (normalize_row qe) k = Inr hits"
      and cands: "collect_results (chunk_metadata st) hits = Inr cands"
      and results: "results = sort_key (\<lambda>r. - final_score r) cands"
    by (auto simp: search_knowledge_def search_candidates_def split: sum.splits)
  have "\<forall>(s, i)\<in>set hits. - 1 \<le> i \<and> i < int (length (chunk_metadata st))"
    using index_search_labels [OF hits] assms(3) by auto
  from collect_results_all [OF assms(2) this] cands have "length cands = length hits"
    by simp
  with index_search_length [OF hits] results show ?thesis by simp
qed

text \<open>
  Claim C1, at an index of two vectors searched with \<open>k = 5\<close>. The index search fills the
  three places it has no vector for with the label \<open>-1\<close>; the label passes the test
  \<open>idx < len(chunk_metadata)\<close> and, as a list index, selects the last chunk. The search
  returns five results, not two: the last chunk appears four times, three of them with
  the lowest single-precision number as similarity.
\<close>

theorem search_returns_padding:
  "search_knowledge offline_services scenario_a_state ''marketing tips'' 5
     = Inr [make_result scenario_a_high_value_chunk 1,
            make_result scenario_a_semantic_chunk 1,
            make_result scenario_a_high_value_chunk (- FLT_MAX),
            make_result scenario_a_high_value_chunk (- FLT_MAX),
            make_result scenario_a_high_value_chunk (- FLT_MAX)]
   \<and> index scenario_a_state = Some scenario_a_index
   \<and> ntotal scenario_a_index = 2
   \<and> length (chunk_metadata scenario_a_state) = 2
   \<and> similarity_score (make_result scenario_a_high_value_chunk (- FLT_MAX)) = - FLT_MAX"
proof -
  have "search_knowledge offline_services scenario_a_state ''marketing tips'' 5
     = Inr [make_result scenario_a_high_value_chunk 1,
            make_result scenario_a_semantic_chunk 1,
            make_result scenario_a_high_value_chunk (- FLT_MAX),
            make_result scenario_a_high_value_chunk (- FLT_MAX),
            make_result scenario_a_high_value_chunk (- FLT_MAX)]"
    by (simp add: search_knowledge_def scenario_a_state_def scenario_a_candidates_5
        final_score_make_result scenario_a_quality get_or_def FLT_MAX_def)
  then show ?thesis
    by (simp add: scenario_a_state_def ntotal_def scenario_a_index_def
        final_score_make_result)
qed

text \<open>
  Claim C7, at an index without vectors. With no index loaded the search returns the empty
  sequence. With an index that holds no vector and no chunk metadata, the index search
  returns the label \<open>-1\<close> five times, and reading the chunk list at \<open>-1\<close> raises
  \<open>IndexError\<close>.
\<close>

theorem search_empty_index_raises:
  "search_knowledge sv init_state query k = Inr []
   \<and> search_knowledge sv (st\<lparr>index := None\<rparr>) query k = Inr []
   \<and> ntotal (IndexFlatIP 384) = 0
   \<and> index empty_index_state = Some (IndexFlatIP 384)
   \<and> search_knowledge offline_services empty_index_state ''marketing tips'' 5 = Inl IndexError"
  by (simp add: search_knowledge_def init_state_def empty_index_state_def ntotal_def
      IndexFlatIP_def search_candidates_def embed_query_offline normalize_unit_vector
      index_search_def length_unit_vector numeral_eq_Suc list_getitem_def)

end
